theory Spec2Isabelle
  imports Main
begin

section \<open>The logged-models empty-state panel\<close>

text \<open>
  A shallow embedding of the React component
  \<^verbatim>\<open>ExperimentLoggedModelListPageTableEmpty\<close>
  (\<^verbatim>\<open>ExperimentLoggedModelListPageTableEmpty.tsx\<close>). The component is a function from
  its props and its one piece of hook state to a tree of design-system elements. The
  tree is modelled as data: every prop the source passes to \<^verbatim>\<open>Empty\<close> and
  \<^verbatim>\<open>Modal\<close> is a field, and an event handler is the state update it performs.
  The absolutely positioned \<^verbatim>\<open>div\<close> around the two elements carries layout
  styles only and is left out.
\<close>

subsection \<open>Module constants\<close>

definition EXAMPLE_INSTALL_CODE :: string where
  \<open>EXAMPLE_INSTALL_CODE = ''pip install 'mlflow>=3'' @ [CHR 0x27]\<close>

text \<open>
  \<^verbatim>\<open>String.prototype.trim\<close> removes white space and line terminators from both
  ends. Of the code units it removes, these are the ones an 8-bit \<^typ>\<open>char\<close> can hold.
\<close>

definition isWhiteSpace :: "char \<Rightarrow> bool" where
  "isWhiteSpace c =
     (c = CHR 0x09 \<or> c = CHR 0x0A \<or> c = CHR 0x0B \<or> c = CHR 0x0C \<or> c = CHR 0x0D \<or>
      c = CHR 0x20 \<or> c = CHR 0xA0)"

definition trim :: "string \<Rightarrow> string" where
  "trim s = rev (dropWhile isWhiteSpace (rev (dropWhile isWhiteSpace s)))"

text \<open>
  The template literal of \<^verbatim>\<open>EXAMPLE_CODE\<close> opens with a line break, so each of
  its lines is preceded by one.
\<close>

definition EXAMPLE_CODE_lines :: "string list" where
  \<open>EXAMPLE_CODE_lines = [
    ''import pandas as pd'',
    ''from sklearn.linear_model import ElasticNet'',
    ''from sklearn.metrics import mean_squared_error, mean_absolute_error, r2_score'',
    ''from sklearn.datasets import load_iris'',
    ''from sklearn.model_selection import train_test_split'',
    '''',
    ''import mlflow'',
    ''import mlflow.sklearn'',
    ''from mlflow.entities import Dataset'',
    '''',
    ''# Helper function to compute metrics'',
    ''def compute_metrics(actual, predicted):'',
    ''    rmse = mean_squared_error(actual, predicted) '',
    ''    mae = mean_absolute_error(actual, predicted)'',
    ''    r2 = r2_score(actual, predicted)'',
    ''    return rmse, mae, r2'',
    '''',
    ''# Load Iris dataset and prepare the DataFrame'',
    ''iris = load_iris()'',
    ''iris_df = pd.DataFrame(data=iris.data, columns=iris.feature_names)'',
    ''iris_df['quality'] = (iris.target == 2).astype(int)  # Create a binary target for simplicity'',
    '''',
    ''# Split into training and testing datasets'',
    ''train_df, test_df = train_test_split(iris_df, test_size=0.2, random_state=42)'',
    '''',
    ''# Start a run to represent the training job'',
    ''with mlflow.start_run() as training_run:'',
    ''    # Load the training dataset with MLflow. We will link training metrics to this dataset.'',
    ''    train_dataset: Dataset = mlflow.data.from_pandas(train_df, name="train")'',
    ''    train_x = train_dataset.df.drop(["quality"], axis=1)'',
    ''    train_y = train_dataset.df[["quality"]]'',
    '''',
    ''    # Fit a model to the training dataset'',
    ''    lr = ElasticNet(alpha=0.5, l1_ratio=0.5, random_state=42)'',
    ''    lr.fit(train_x, train_y)'',
    '''',
    ''    # Log the model, specifying its ElasticNet parameters (alpha, l1_ratio)'',
    ''    # As a new feature, the LoggedModel entity is linked to its name and params'',
    ''    model_info = mlflow.sklearn.log_model('',
    ''        sk_model=lr,'',
    ''        name="elasticnet",'',
    ''        params={'',
    ''            "alpha": 0.5,'',
    ''            "l1_ratio": 0.5,'',
    ''        },'',
    ''        input_example = train_x'',
    ''    )'',
    '''',
    ''    # Inspect the LoggedModel and its properties'',
    ''    logged_model = mlflow.get_logged_model(model_info.model_id)'',
    ''    print(logged_model.model_id, logged_model.params)'',
    '''',
    ''    # Evaluate the model on the training dataset and log metrics'',
    ''    # These metrics are now linked to the LoggedModel entity'',
    ''    predictions = lr.predict(train_x)'',
    ''    (rmse, mae, r2) = compute_metrics(train_y, predictions)'',
    ''    mlflow.log_metrics('',
    ''        metrics={'',
    ''            "rmse": rmse,'',
    ''            "r2": r2,'',
    ''            "mae": mae,'',
    ''        },'',
    ''        model_id=logged_model.model_id,'',
    ''        dataset=train_dataset'',
    ''    )'',
    '''',
    ''    # Inspect the LoggedModel, now with metrics'',
    ''    logged_model = mlflow.get_logged_model(model_info.model_id)'',
    ''    print(logged_model.model_id, logged_model.metrics)'']\<close>

definition EXAMPLE_CODE_template :: string where
  "EXAMPLE_CODE_template = concat (map (\<lambda>l. CHR 0x0A # l) EXAMPLE_CODE_lines)"

definition EXAMPLE_CODE :: string where
  "EXAMPLE_CODE = trim EXAMPLE_CODE_template"

subsection \<open>Props, elements and the rendered tree\<close>

text \<open>
  A JavaScript \<^verbatim>\<open>Error\<close>. The component reads its \<^verbatim>\<open>message\<close> only. An object is
  truthy whatever its fields hold, so the test \<^verbatim>\<open>badRequestError ? ... : ...\<close> asks
  whether the prop was given.
\<close>

record Error =
  name :: string
  message :: string

text \<open>
  The props as a caller passes them: each is optional, and \<^term>\<open>None\<close> is
  \<^verbatim>\<open>undefined\<close>.
\<close>

record props =
  displayShowExampleButton :: "bool option"
  isFilteringActive :: "bool option"
  badRequestError :: "Error option"

text \<open>
  The functions under \<^verbatim>\<open>values\<close> of a \<^verbatim>\<open>FormattedMessage\<close> wrap the chunks of a
  tag of the message in an element: \<^verbatim>\<open>Typography.Link\<close> with its
  \<^verbatim>\<open>componentId\<close>, \<^verbatim>\<open>openInNewTab\<close> and \<^verbatim>\<open>href\<close>, or \<^verbatim>\<open>code\<close>.
\<close>

datatype wrapper =
    TypographyLink string bool string
  | Code

datatype element =
    Str string
  | FormattedMessage (defaultMessage: string) (msg_description: string)
      (msg_values: "(string \<times> wrapper) list")
  | DangerIcon
  | TypographyText element
  | CodeSnippet string string
  | Spacer string

text \<open>
  An event handler is a closure that calls the state setter with a value fixed when the
  tree is rendered.
\<close>

datatype action = SetIsCodeExampleVisible bool

datatype button_element =
  Button (btn_type: string) (btn_componentId: string) (onClick: action) (btn_children: element)

record empty_props =
  title :: element
  description :: element
  image :: "element option"
  button :: "button_element option"

record modal_props =
  modal_size :: string
  visible :: bool
  onCancel :: action
  modal_title :: element
  componentId :: string
  okText :: element
  onOk :: action
  children :: "element list"

record view =
  Empty :: empty_props
  Modal :: modal_props

subsection \<open>The component\<close>

text \<open>
  \<^verbatim>\<open>useState(false)\<close>: the value of \<^verbatim>\<open>isCodeExampleVisible\<close> when the component
  mounts.
\<close>

definition initial_isCodeExampleVisible :: bool where
  "initial_isCodeExampleVisible = False"

text \<open>
  The component, with the hook state passed in. \<^verbatim>\<open>getMlflow3DocsLink()\<close> comes from
  another module, so the link it returns is the parameter \<open>mlflow3DocsLink\<close>. The
  two \<^verbatim>\<open>let\<close> bindings are the defaults of the destructured props.
\<close>

definition ExperimentLoggedModelListPageTableEmpty :: "string \<Rightarrow> props \<Rightarrow> bool \<Rightarrow> view" where
  \<open>ExperimentLoggedModelListPageTableEmpty mlflow3DocsLink ps isCodeExampleVisible =
    (let displayShowExampleButton =
           (case displayShowExampleButton ps of None \<Rightarrow> True | Some b \<Rightarrow> b);
         isFilteringActive =
           (case isFilteringActive ps of None \<Rightarrow> False | Some b \<Rightarrow> b);
         badRequestError = badRequestError ps
     in
      \<lparr> Empty = \<lparr>
          title =
            (if badRequestError \<noteq> None then
               FormattedMessage ''Request error''
                 ''Error state title displayed in the logged models list page'' []
             else if isFilteringActive then
               FormattedMessage ''No models found''
                 ''Empty state title displayed when all models are filtered out in the logged models list page'' []
             else
               FormattedMessage ''No models logged''
                 ''Placeholder for empty models table on the logged models list page'' []),
          description =
            (case badRequestError of
               Some e \<Rightarrow> Str (message e)
             | None \<Rightarrow>
                 if isFilteringActive then
                   FormattedMessage
                     ''We couldn't find any models matching your search criteria. Try changing your search filters.''
                     ''Empty state message displayed when all models are filtered out in the logged models list page'' []
                 else
                   FormattedMessage
                     ''Your models will appear here once you log them using newest version of MLflow. <link>Learn more</link>.''
                     ''Placeholder for empty models table on the logged models list page''
                     [(''link'',
                       TypographyLink ''mlflow.logged_models.list.no_results_learn_more'' True
                         mlflow3DocsLink)]),
          image = (if badRequestError \<noteq> None then Some DangerIcon else None),
          button =
            (if displayShowExampleButton \<and> \<not> isFilteringActive \<and> \<not> (badRequestError \<noteq> None) then
               Some (Button ''primary'' ''mlflow.logged_models.list.show_example_code''
                 (SetIsCodeExampleVisible (\<not> isCodeExampleVisible))
                 (FormattedMessage ''Show example code''
                    ''Button for showing logged models quickstart example code'' []))
             else None) \<rparr>,
        Modal = \<lparr>
          modal_size = ''wide'',
          visible = isCodeExampleVisible,
          onCancel = SetIsCodeExampleVisible False,
          modal_title =
            FormattedMessage ''Example code''
              ''Title of the modal with the logged models quickstart example code'' [],
          componentId = ''mlflow.logged_models.list.example_code_modal'',
          okText =
            FormattedMessage ''Close''
              ''Button for closing modal with the logged models quickstart example code'' [],
          onOk = SetIsCodeExampleVisible False,
          children =
            [TypographyText
               (FormattedMessage ''Install <code>mlflow</code> 3:''
                  ''Instruction for installing MLflow 3 to log MLflow 3 models'' [(''code'', Code)]),
             CodeSnippet ''text'' EXAMPLE_INSTALL_CODE,
             Spacer ''sm'',
             FormattedMessage ''Run example training code:''
               ''Instruction for running example training code in order to log MLflow 3 models'' [],
             CodeSnippet ''python'' EXAMPLE_CODE] \<rparr> \<rparr>)\<close>

subsection \<open>Events\<close>

text \<open>
  The tree holds three handlers: the button's \<^verbatim>\<open>onClick\<close> and the modal's
  \<^verbatim>\<open>onCancel\<close> and \<^verbatim>\<open>onOk\<close>. An event finds its handler in the tree rendered
  last; a click on a button that was not rendered has none. Whether the design-system
  modal lets the user reach its two handlers while it is hidden is not this component's
  concern, so they are taken to be callable in every state.
\<close>

datatype event = ButtonClick | ModalCancel | ModalOk

fun handler :: "view \<Rightarrow> event \<Rightarrow> action option" where
  "handler v ButtonClick = map_option onClick (button (Empty v))"
| "handler v ModalCancel = Some (onCancel (Modal v))"
| "handler v ModalOk = Some (onOk (Modal v))"

text \<open>Running a handler: the setter replaces the hook state by its argument.\<close>

fun perform :: "action \<Rightarrow> bool" where
  "perform (SetIsCodeExampleVisible b) = b"

text \<open>
  One event on the component rendered from props \<open>ps\<close> in state
  \<open>isCodeExampleVisible\<close>: the next state, or \<^term>\<open>None\<close> when the tree has no handler
  for the event.
\<close>

definition fire :: "string \<Rightarrow> props \<Rightarrow> bool \<Rightarrow> event \<Rightarrow> bool option" where
  "fire mlflow3DocsLink ps isCodeExampleVisible e =
     map_option perform
       (handler (ExperimentLoggedModelListPageTableEmpty mlflow3DocsLink ps isCodeExampleVisible) e)"

text \<open>
  A life of one mounted component: a list of events, each with the props the parent
  passed in the render before it. React keeps the hook state across renders and
  renders again after each state update, so every event meets the handlers of the
  current state.
\<close>

fun run :: "string \<Rightarrow> bool \<Rightarrow> (props \<times> event) list \<Rightarrow> bool option" where
  "run mlflow3DocsLink s [] = Some s"
| "run mlflow3DocsLink s ((ps, e) # rest) =
     (case fire mlflow3DocsLink ps s e of
        None \<Rightarrow> None
      | Some s' \<Rightarrow> run mlflow3DocsLink s' rest)"

subsection \<open>The modal's state machine as the specification words it\<close>

text \<open>
  The specification describes the modal as a machine over \<open>Closed\<close> and \<open>Open\<close>: a
  click on the button flips the state, the cancel action and the close button lead to
  \<open>Closed\<close>. It is written down here from those words, to be compared with the
  boolean hook state of the source.
\<close>

datatype modal_state = Closed | Open

fun spec_modal_step :: "modal_state \<Rightarrow> event \<Rightarrow> modal_state" where
  "spec_modal_step Closed ButtonClick = Open"
| "spec_modal_step Open ButtonClick = Closed"
| "spec_modal_step _ ModalCancel = Closed"
| "spec_modal_step _ ModalOk = Closed"

definition modal_state_of :: "bool \<Rightarrow> modal_state" where
  "modal_state_of isCodeExampleVisible = (if isCodeExampleVisible then Open else Closed)"

section \<open>Properties\<close>

subsection \<open>Auxiliary facts\<close>

lemmas component_defs = ExperimentLoggedModelListPageTableEmpty_def Let_def

lemma fire_ButtonClick:
  "fire l ps s ButtonClick =
     (if badRequestError ps = None \<and> isFilteringActive ps \<noteq> Some True \<and>
         displayShowExampleButton ps \<noteq> Some False
      then Some (\<not> s) else None)"
  by (auto simp add: fire_def component_defs split: option.splits)

lemma fire_ModalCancel: "fire l ps s ModalCancel = Some False"
  by (simp add: fire_def component_defs)

lemma fire_ModalOk: "fire l ps s ModalOk = Some False"
  by (simp add: fire_def component_defs)

lemma button_present_iff:
  "button (Empty (ExperimentLoggedModelListPageTableEmpty l ps s)) \<noteq> None \<longleftrightarrow>
     badRequestError ps = None \<and> isFilteringActive ps \<noteq> Some True \<and>
     displayShowExampleButton ps \<noteq> Some False"
  by (auto simp add: component_defs split: option.splits)

lemma visible_is_state: "visible (Modal (ExperimentLoggedModelListPageTableEmpty l ps s)) = s"
  by (simp add: component_defs)

text \<open>Clicks from any state: an even number restores it, an odd number negates it.\<close>

lemma run_clicks:
  assumes "badRequestError ps = None" and "isFilteringActive ps \<noteq> Some True"
    and "displayShowExampleButton ps \<noteq> Some False"
  shows "run l s (replicate n (ps, ButtonClick)) = Some (if even n then s else \<not> s)"
  using assms by (induction n arbitrary: s) (simp_all add: fire_ButtonClick)

text \<open>While no render shows the button, a closed modal stays closed.\<close>

lemma run_without_button:
  assumes "\<forall>(ps, e) \<in> set tr.
      badRequestError ps \<noteq> None \<or> isFilteringActive ps = Some True \<or>
      displayShowExampleButton ps = Some False"
  shows "run l False tr \<noteq> Some True"
  using assms
proof (induction tr)
  case Nil
  show ?case by simp
next
  case (Cons pe tr)
  obtain ps e where pe: "pe = (ps, e)" by (cases pe)
  from Cons.prems have rest: "\<forall>(ps, e) \<in> set tr.
      badRequestError ps \<noteq> None \<or> isFilteringActive ps = Some True \<or>
      displayShowExampleButton ps = Some False"
    by simp
  from Cons.prems pe have here:
    "badRequestError ps \<noteq> None \<or> isFilteringActive ps = Some True \<or>
     displayShowExampleButton ps = Some False"
    by simp
  show ?case
  proof (cases e)
    case ButtonClick
    with here have "fire l ps False e = None" by (auto simp add: fire_ButtonClick)
    with pe show ?thesis by simp
  next
    case ModalCancel
    with pe Cons.IH [OF rest] show ?thesis by (simp add: fire_ModalCancel)
  next
    case ModalOk
    with pe Cons.IH [OF rest] show ?thesis by (simp add: fire_ModalOk)
  qed
qed

lemma EXAMPLE_CODE_trimmed: "EXAMPLE_CODE = tl EXAMPLE_CODE_template"
  by code_simp

section \<open>The claims\<close>

text \<open>
  C1. The title follows an ordered precedence: when \<open>badRequestError\<close> is given the title
  is "Request error", whatever \<open>isFilteringActive\<close> and \<open>displayShowExampleButton\<close> are;
  otherwise, when \<open>isFilteringActive\<close> is true, it is "No models found"; otherwise it is
  "No models logged".
\<close>

theorem title_by_precedence:
  "defaultMessage (title (Empty (ExperimentLoggedModelListPageTableEmpty l ps s))) =
     (if badRequestError ps \<noteq> None then ''Request error''
      else if isFilteringActive ps = Some True then ''No models found''
      else ''No models logged'')"
  by (simp add: component_defs split: option.splits)

theorem title_by_precedence_witness:
  "defaultMessage (title (Empty (ExperimentLoggedModelListPageTableEmpty ''''
     \<lparr>displayShowExampleButton = Some True, isFilteringActive = Some True,
      badRequestError = Some \<lparr>name = ''Error'', message = ''boom''\<rparr>\<rparr> False))) = ''Request error'' \<and>
   defaultMessage (title (Empty (ExperimentLoggedModelListPageTableEmpty ''''
     \<lparr>displayShowExampleButton = None, isFilteringActive = Some True,
      badRequestError = None\<rparr> False))) = ''No models found'' \<and>
   defaultMessage (title (Empty (ExperimentLoggedModelListPageTableEmpty ''''
     \<lparr>displayShowExampleButton = None, isFilteringActive = None,
      badRequestError = None\<rparr> False))) = ''No models logged''"
  using
    title_by_precedence [of "''''" "\<lparr>displayShowExampleButton = Some True,
      isFilteringActive = Some True,
      badRequestError = Some \<lparr>name = ''Error'', message = ''boom''\<rparr>\<rparr>" False]
    title_by_precedence [of "''''" "\<lparr>displayShowExampleButton = None,
      isFilteringActive = Some True, badRequestError = None\<rparr>" False]
    title_by_precedence [of "''''" "\<lparr>displayShowExampleButton = None,
      isFilteringActive = None, badRequestError = None\<rparr>" False]
  by simp

text \<open>
  C2. The button is rendered exactly when \<open>badRequestError\<close> is absent,
  \<open>isFilteringActive\<close> is false (given as false, or left out) and
  \<open>displayShowExampleButton\<close> is true (given as true, or left out).
\<close>

theorem button_rendered_iff:
  "button (Empty (ExperimentLoggedModelListPageTableEmpty l ps s)) \<noteq> None \<longleftrightarrow>
     badRequestError ps = None \<and>
     (isFilteringActive ps = Some False \<or> isFilteringActive ps = None) \<and>
     (displayShowExampleButton ps = Some True \<or> displayShowExampleButton ps = None)"
  by (auto simp add: component_defs split: option.splits)

theorem button_rendered_iff_witness:
  "button (Empty (ExperimentLoggedModelListPageTableEmpty ''''
     \<lparr>displayShowExampleButton = Some True, isFilteringActive = Some False,
      badRequestError = None\<rparr> False)) \<noteq> None \<and>
   button (Empty (ExperimentLoggedModelListPageTableEmpty ''''
     \<lparr>displayShowExampleButton = Some True, isFilteringActive = Some False,
      badRequestError = Some \<lparr>name = ''Error'', message = ''boom''\<rparr>\<rparr> False)) = None \<and>
   button (Empty (ExperimentLoggedModelListPageTableEmpty ''''
     \<lparr>displayShowExampleButton = Some True, isFilteringActive = Some True,
      badRequestError = None\<rparr> False)) = None \<and>
   button (Empty (ExperimentLoggedModelListPageTableEmpty ''''
     \<lparr>displayShowExampleButton = Some False, isFilteringActive = Some False,
      badRequestError = None\<rparr> False)) = None"
  using
    button_rendered_iff [of "''''" "\<lparr>displayShowExampleButton = Some True,
      isFilteringActive = Some False, badRequestError = None\<rparr>" False]
    button_rendered_iff [of "''''" "\<lparr>displayShowExampleButton = Some True,
      isFilteringActive = Some False,
      badRequestError = Some \<lparr>name = ''Error'', message = ''boom''\<rparr>\<rparr>" False]
    button_rendered_iff [of "''''" "\<lparr>displayShowExampleButton = Some True,
      isFilteringActive = Some True, badRequestError = None\<rparr>" False]
    button_rendered_iff [of "''''" "\<lparr>displayShowExampleButton = Some False,
      isFilteringActive = Some False, badRequestError = None\<rparr>" False]
  by simp

text \<open>
  C3. Where the button is rendered, its handler negates the current visibility (it does
  not set it to true), and \<open>n\<close> clicks in a row from the initial state leave the modal
  open exactly when \<open>n\<close> is odd: the hook state reached is \<open>odd n\<close>, and so is the
  \<open>visible\<close> prop of the modal rendered from it.
\<close>

theorem clicks_parity:
  assumes "button (Empty (ExperimentLoggedModelListPageTableEmpty l ps s)) \<noteq> None"
  shows "fire l ps s ButtonClick = Some (\<not> s) \<and>
    run l initial_isCodeExampleVisible (replicate n (ps, ButtonClick)) = Some (odd n) \<and>
    map_option (\<lambda>s'. visible (Modal (ExperimentLoggedModelListPageTableEmpty l ps s')))
      (run l initial_isCodeExampleVisible (replicate n (ps, ButtonClick))) = Some (odd n)"
proof -
  from assms button_present_iff [of l ps s]
  have shown: "badRequestError ps = None" "isFilteringActive ps \<noteq> Some True"
    "displayShowExampleButton ps \<noteq> Some False"
    by blast+
  then have flip: "fire l ps s ButtonClick = Some (\<not> s)"
    by (simp add: fire_ButtonClick)
  from shown
  have reached: "run l initial_isCodeExampleVisible (replicate n (ps, ButtonClick)) = Some (odd n)"
    by (simp add: run_clicks initial_isCodeExampleVisible_def)
  have "map_option (\<lambda>s'. visible (Modal (ExperimentLoggedModelListPageTableEmpty l ps s')))
      (run l initial_isCodeExampleVisible (replicate n (ps, ButtonClick))) = Some (odd n)"
    unfolding reached by (simp add: visible_is_state)
  with flip reached show ?thesis by blast
qed

theorem clicks_parity_witness:
  "button (Empty (ExperimentLoggedModelListPageTableEmpty ''''
     \<lparr>displayShowExampleButton = None, isFilteringActive = None, badRequestError = None\<rparr>
     True)) \<noteq> None \<and>
   fire '''' \<lparr>displayShowExampleButton = None, isFilteringActive = None,
     badRequestError = None\<rparr> True ButtonClick = Some False \<and>
   run '''' initial_isCodeExampleVisible
     (replicate 3 (\<lparr>displayShowExampleButton = None, isFilteringActive = None,
        badRequestError = None\<rparr>, ButtonClick)) = Some True \<and>
   map_option (\<lambda>s'. visible (Modal (ExperimentLoggedModelListPageTableEmpty ''''
       \<lparr>displayShowExampleButton = None, isFilteringActive = None,
        badRequestError = None\<rparr> s')))
     (run '''' initial_isCodeExampleVisible
       (replicate 3 (\<lparr>displayShowExampleButton = None, isFilteringActive = None,
          badRequestError = None\<rparr>, ButtonClick))) = Some True \<and>
   run '''' initial_isCodeExampleVisible
     (replicate 4 (\<lparr>displayShowExampleButton = None, isFilteringActive = None,
        badRequestError = None\<rparr>, ButtonClick)) = Some False \<and>
   map_option (\<lambda>s'. visible (Modal (ExperimentLoggedModelListPageTableEmpty ''''
       \<lparr>displayShowExampleButton = None, isFilteringActive = None,
        badRequestError = None\<rparr> s')))
     (run '''' initial_isCodeExampleVisible
       (replicate 4 (\<lparr>displayShowExampleButton = None, isFilteringActive = None,
          badRequestError = None\<rparr>, ButtonClick))) = Some False"
proof -
  let ?ps = "\<lparr>displayShowExampleButton = None, isFilteringActive = None,
    badRequestError = None\<rparr>"
  have shown: "button (Empty (ExperimentLoggedModelListPageTableEmpty '''' ?ps True)) \<noteq> None"
    by (simp add: component_defs)
  have odd3: "odd (3::nat) = True" and even4: "odd (4::nat) = False"
    by simp_all
  note three = clicks_parity [OF shown, of 3, unfolded odd3]
  note four = clicks_parity [OF shown, of 4, unfolded even4]
  from three [THEN conjunct1]
  have flip: "fire '''' ?ps True ButtonClick = Some False"
    by simp
  from shown flip three [THEN conjunct2] four [THEN conjunct2]
  show ?thesis
    by (elim conjE, intro conjI)
qed

text \<open>
  C4. When \<open>badRequestError\<close> is given, the description is the error's \<open>message\<close>
  string itself, unchanged, also when the message is empty.
\<close>

theorem description_is_error_message:
  assumes "badRequestError ps = Some err"
  shows "description (Empty (ExperimentLoggedModelListPageTableEmpty l ps s)) = Str (message err)"
  using assms by (simp add: component_defs)

theorem description_is_error_message_witness:
  "description (Empty (ExperimentLoggedModelListPageTableEmpty ''''
     \<lparr>displayShowExampleButton = None, isFilteringActive = None,
      badRequestError = Some \<lparr>name = ''Error'', message = ''''\<rparr>\<rparr> False)) = Str '''' \<and>
   description (Empty (ExperimentLoggedModelListPageTableEmpty ''''
     \<lparr>displayShowExampleButton = None, isFilteringActive = Some True,
      badRequestError = Some \<lparr>name = ''Error'', message = ''boom''\<rparr>\<rparr> True)) = Str ''boom''"
proof -
  have a: "badRequestError \<lparr>displayShowExampleButton = None, isFilteringActive = None,
      badRequestError = Some \<lparr>name = ''Error'', message = ''''\<rparr>\<rparr>
    = Some \<lparr>name = ''Error'', message = ''''\<rparr>"
    by simp
  have b: "badRequestError \<lparr>displayShowExampleButton = None, isFilteringActive = Some True,
      badRequestError = Some \<lparr>name = ''Error'', message = ''boom''\<rparr>\<rparr>
    = Some \<lparr>name = ''Error'', message = ''boom''\<rparr>"
    by simp
  from description_is_error_message [OF a, of "''''" False]
    description_is_error_message [OF b, of "''''" True]
  show ?thesis by simp
qed

text \<open>
  C5. The modal is a two-state machine, closed at first. The hook state refines the
  machine of the specification: the modal's \<open>visible\<close> prop is the state, the cancel
  action and the close button are always handled and lead to \<open>Closed\<close>, a click on the
  button is handled exactly when the button is rendered and then flips the state, and
  every handled event takes the step the specification names. The three events are the
  three handlers of the tree, the only places where the source calls the state setter.
\<close>

theorem modal_state_machine:
  "modal_state_of initial_isCodeExampleVisible = Closed \<and>
   (visible (Modal (ExperimentLoggedModelListPageTableEmpty l ps s)) \<longleftrightarrow>
      modal_state_of s = Open) \<and>
   fire l ps s ModalCancel = Some False \<and>
   fire l ps s ModalOk = Some False \<and>
   (fire l ps s ButtonClick \<noteq> None \<longleftrightarrow>
      button (Empty (ExperimentLoggedModelListPageTableEmpty l ps s)) \<noteq> None) \<and>
   (fire l ps s e = Some s' \<longrightarrow>
      modal_state_of s' = spec_modal_step (modal_state_of s) e)"
proof -
  have "modal_state_of s' = spec_modal_step (modal_state_of s) e" if "fire l ps s e = Some s'"
  proof (cases e)
    case ButtonClick
    with that show ?thesis
      by (cases s) (auto simp add: fire_ButtonClick modal_state_of_def split: if_splits)
  next
    case ModalCancel
    with that show ?thesis by (simp add: fire_ModalCancel modal_state_of_def)
  next
    case ModalOk
    with that show ?thesis by (simp add: fire_ModalOk modal_state_of_def)
  qed
  moreover have "fire l ps s ButtonClick \<noteq> None \<longleftrightarrow>
      button (Empty (ExperimentLoggedModelListPageTableEmpty l ps s)) \<noteq> None"
    unfolding button_present_iff by (simp add: fire_ButtonClick)
  moreover have "visible (Modal (ExperimentLoggedModelListPageTableEmpty l ps s)) \<longleftrightarrow>
      modal_state_of s = Open"
    by (simp add: visible_is_state modal_state_of_def)
  moreover have "modal_state_of initial_isCodeExampleVisible = Closed"
    by (simp add: modal_state_of_def initial_isCodeExampleVisible_def)
  ultimately show ?thesis
    by (simp add: fire_ModalCancel fire_ModalOk)
qed

theorem modal_state_machine_witness:
  "fire '''' \<lparr>displayShowExampleButton = None, isFilteringActive = None,
     badRequestError = None\<rparr> False ButtonClick = Some True \<and>
   modal_state_of True = spec_modal_step (modal_state_of False) ButtonClick \<and>
   modal_state_of True = Open \<and>
   fire '''' \<lparr>displayShowExampleButton = None, isFilteringActive = None,
     badRequestError = None\<rparr> True ModalOk = Some False \<and>
   modal_state_of False = spec_modal_step (modal_state_of True) ModalOk \<and>
   modal_state_of False = Closed"
proof -
  let ?ps = "\<lparr>displayShowExampleButton = None, isFilteringActive = None,
    badRequestError = None\<rparr>"
  have click: "fire '''' ?ps False ButtonClick = Some True"
    by (simp add: fire_ButtonClick)
  have ok: "fire '''' ?ps True ModalOk = Some False"
    by (simp add: fire_ModalOk)
  from modal_state_machine [of "''''" ?ps False ButtonClick True] click
  have "modal_state_of True = spec_modal_step (modal_state_of False) ButtonClick"
    by blast
  moreover from modal_state_machine [of "''''" ?ps True ModalOk False] ok
  have "modal_state_of False = spec_modal_step (modal_state_of True) ModalOk"
    by blast
  ultimately show ?thesis using click ok
    by (simp add: modal_state_of_def)
qed

text \<open>
  C6. The modal's content does not depend on the props, the hook state or the
  documentation link: it is always the same five children, among them the install
  command \<^verbatim>\<open>pip install 'mlflow>=3'\<close> as plain text and the constant example script
  as Python. Rendering with no prop given and clicking the button once makes the modal
  visible.
\<close>

theorem modal_content_fixed:
  \<open>children (Modal (ExperimentLoggedModelListPageTableEmpty l ps s)) =
     children (Modal (ExperimentLoggedModelListPageTableEmpty l' ps' s')) \<and>
   children (Modal (ExperimentLoggedModelListPageTableEmpty l ps s)) =
     [TypographyText
        (FormattedMessage ''Install <code>mlflow</code> 3:''
           ''Instruction for installing MLflow 3 to log MLflow 3 models'' [(''code'', Code)]),
      CodeSnippet ''text'' (''pip install '' @ [CHR 0x27] @ ''mlflow>=3'' @ [CHR 0x27]),
      Spacer ''sm'',
      FormattedMessage ''Run example training code:''
        ''Instruction for running example training code in order to log MLflow 3 models'' [],
      CodeSnippet ''python'' EXAMPLE_CODE] \<and>
   run l initial_isCodeExampleVisible
     [(\<lparr>displayShowExampleButton = None, isFilteringActive = None,
        badRequestError = None\<rparr>, ButtonClick)] = Some True \<and>
   visible (Modal (ExperimentLoggedModelListPageTableEmpty l
     \<lparr>displayShowExampleButton = None, isFilteringActive = None,
      badRequestError = None\<rparr> True))\<close>
  by (simp add: component_defs EXAMPLE_INSTALL_CODE_def fire_ButtonClick
      initial_isCodeExampleVisible_def)

theorem modal_content_fixed_witness:
  \<open>children (Modal (ExperimentLoggedModelListPageTableEmpty ''''
     \<lparr>displayShowExampleButton = None, isFilteringActive = None,
      badRequestError = None\<rparr> True)) =
   children (Modal (ExperimentLoggedModelListPageTableEmpty ''https://mlflow.org''
     \<lparr>displayShowExampleButton = Some False, isFilteringActive = Some True,
      badRequestError = Some \<lparr>name = ''Error'', message = ''boom''\<rparr>\<rparr> False))\<close>
  using modal_content_fixed [of "''''"
    "\<lparr>displayShowExampleButton = None, isFilteringActive = None, badRequestError = None\<rparr>"
    True "''https://mlflow.org''"
    "\<lparr>displayShowExampleButton = Some False, isFilteringActive = Some True,
      badRequestError = Some \<lparr>name = ''Error'', message = ''boom''\<rparr>\<rparr>" False]
  by blast

text \<open>
  C7. A prop that is left out takes its default: without \<open>displayShowExampleButton\<close> the
  component renders as with \<open>displayShowExampleButton = true\<close>, without
  \<open>isFilteringActive\<close> as with \<open>isFilteringActive = false\<close>, and without
  \<open>badRequestError\<close> no error is shown.
\<close>

theorem omitted_props_take_defaults:
  "ExperimentLoggedModelListPageTableEmpty l (ps\<lparr>displayShowExampleButton := None\<rparr>) s =
     ExperimentLoggedModelListPageTableEmpty l (ps\<lparr>displayShowExampleButton := Some True\<rparr>) s \<and>
   ExperimentLoggedModelListPageTableEmpty l (ps\<lparr>isFilteringActive := None\<rparr>) s =
     ExperimentLoggedModelListPageTableEmpty l (ps\<lparr>isFilteringActive := Some False\<rparr>) s \<and>
   ExperimentLoggedModelListPageTableEmpty l
     \<lparr>displayShowExampleButton = None, isFilteringActive = None, badRequestError = None\<rparr> s =
     ExperimentLoggedModelListPageTableEmpty l
       \<lparr>displayShowExampleButton = Some True, isFilteringActive = Some False,
        badRequestError = None\<rparr> s \<and>
   image (Empty (ExperimentLoggedModelListPageTableEmpty l (ps\<lparr>badRequestError := None\<rparr>) s)) =
     None \<and>
   defaultMessage (title (Empty (ExperimentLoggedModelListPageTableEmpty l
     (ps\<lparr>badRequestError := None\<rparr>) s))) \<noteq> ''Request error''"
  by (simp add: component_defs)

theorem omitted_props_take_defaults_witness:
  "ExperimentLoggedModelListPageTableEmpty ''''
     \<lparr>displayShowExampleButton = None, isFilteringActive = Some False,
      badRequestError = None\<rparr> False =
   ExperimentLoggedModelListPageTableEmpty ''''
     \<lparr>displayShowExampleButton = Some True, isFilteringActive = Some False,
      badRequestError = None\<rparr> False \<and>
   ExperimentLoggedModelListPageTableEmpty ''''
     \<lparr>displayShowExampleButton = Some True, isFilteringActive = None,
      badRequestError = None\<rparr> False =
   ExperimentLoggedModelListPageTableEmpty ''''
     \<lparr>displayShowExampleButton = Some True, isFilteringActive = Some False,
      badRequestError = None\<rparr> False"
  using
    omitted_props_take_defaults [of "''''" "\<lparr>displayShowExampleButton = Some True,
      isFilteringActive = Some False, badRequestError = None\<rparr>" False]
  by simp

text \<open>
  C8. The title, the description, the image and the presence of the button are decided
  by the props alone: two renders with the same props and different values of the hook
  state agree on them.
\<close>

theorem empty_state_independent_of_modal_state:
  "title (Empty (ExperimentLoggedModelListPageTableEmpty l ps s1)) =
     title (Empty (ExperimentLoggedModelListPageTableEmpty l ps s2)) \<and>
   description (Empty (ExperimentLoggedModelListPageTableEmpty l ps s1)) =
     description (Empty (ExperimentLoggedModelListPageTableEmpty l ps s2)) \<and>
   image (Empty (ExperimentLoggedModelListPageTableEmpty l ps s1)) =
     image (Empty (ExperimentLoggedModelListPageTableEmpty l ps s2)) \<and>
   (button (Empty (ExperimentLoggedModelListPageTableEmpty l ps s1)) = None \<longleftrightarrow>
      button (Empty (ExperimentLoggedModelListPageTableEmpty l ps s2)) = None)"
  by (simp add: component_defs)

theorem empty_state_independent_of_modal_state_witness:
  "title (Empty (ExperimentLoggedModelListPageTableEmpty ''''
     \<lparr>displayShowExampleButton = None, isFilteringActive = None, badRequestError = None\<rparr>
     False)) =
   title (Empty (ExperimentLoggedModelListPageTableEmpty ''''
     \<lparr>displayShowExampleButton = None, isFilteringActive = None, badRequestError = None\<rparr>
     True)) \<and>
   (button (Empty (ExperimentLoggedModelListPageTableEmpty ''''
     \<lparr>displayShowExampleButton = None, isFilteringActive = None, badRequestError = None\<rparr>
     False)) = None \<longleftrightarrow>
    button (Empty (ExperimentLoggedModelListPageTableEmpty ''''
     \<lparr>displayShowExampleButton = None, isFilteringActive = None, badRequestError = None\<rparr>
     True)) = None)"
  using empty_state_independent_of_modal_state [of "''''"
    "\<lparr>displayShowExampleButton = None, isFilteringActive = None, badRequestError = None\<rparr>"
    False True]
  by blast

text \<open>
  C9. As long as every render of a mounted component leaves the button out (an error is
  given, or filtering is active, or \<open>displayShowExampleButton\<close> is false), the modal is
  visible in no state the component reaches from its initial state: after every prefix
  of its life the hook state is not \<open>true\<close>, and the \<open>visible\<close> prop rendered from a
  reached state is false.
\<close>

theorem modal_never_visible_without_button:
  assumes "\<forall>(ps, e) \<in> set tr.
      badRequestError ps \<noteq> None \<or> isFilteringActive ps = Some True \<or>
      displayShowExampleButton ps = Some False"
  shows "run l initial_isCodeExampleVisible (take k tr) \<noteq> Some True \<and>
    (\<forall>s. run l initial_isCodeExampleVisible (take k tr) = Some s \<longrightarrow>
       \<not> visible (Modal (ExperimentLoggedModelListPageTableEmpty l ps' s)))"
proof -
  from assms have "\<forall>(ps, e) \<in> set (take k tr).
      badRequestError ps \<noteq> None \<or> isFilteringActive ps = Some True \<or>
      displayShowExampleButton ps = Some False"
    by (auto dest: in_set_takeD)
  then have "run l False (take k tr) \<noteq> Some True"
    by (rule run_without_button)
  then show ?thesis
    by (auto simp add: initial_isCodeExampleVisible_def visible_is_state)
qed

theorem modal_never_visible_without_button_witness:
  "run '''' initial_isCodeExampleVisible
     (take 2
       [(\<lparr>displayShowExampleButton = Some False, isFilteringActive = None,
          badRequestError = None\<rparr>, ModalOk),
        (\<lparr>displayShowExampleButton = None, isFilteringActive = Some True,
          badRequestError = None\<rparr>, ModalCancel),
        (\<lparr>displayShowExampleButton = None, isFilteringActive = None,
          badRequestError = Some \<lparr>name = ''Error'', message = ''boom''\<rparr>\<rparr>, ModalOk)])
     = Some False \<and>
   \<not> visible (Modal (ExperimentLoggedModelListPageTableEmpty ''''
     \<lparr>displayShowExampleButton = Some False, isFilteringActive = None,
      badRequestError = None\<rparr> False))"
proof -
  let ?tr = "[(\<lparr>displayShowExampleButton = Some False, isFilteringActive = None,
          badRequestError = None\<rparr>, ModalOk),
        (\<lparr>displayShowExampleButton = None, isFilteringActive = Some True,
          badRequestError = None\<rparr>, ModalCancel),
        (\<lparr>displayShowExampleButton = None, isFilteringActive = None,
          badRequestError = Some \<lparr>name = ''Error'', message = ''boom''\<rparr>\<rparr>, ModalOk)]"
  have no_button: "\<forall>(ps, e) \<in> set ?tr.
      badRequestError ps \<noteq> None \<or> isFilteringActive ps = Some True \<or>
      displayShowExampleButton ps = Some False"
    by simp
  have reached: "run '''' initial_isCodeExampleVisible (take 2 ?tr) = Some False"
    by (simp add: fire_ModalOk fire_ModalCancel initial_isCodeExampleVisible_def
        numeral_2_eq_2)
  from modal_never_visible_without_button [OF no_button, of "''''" 2
      "\<lparr>displayShowExampleButton = Some False, isFilteringActive = None,
        badRequestError = None\<rparr>"]
  have "\<forall>s. run '''' initial_isCodeExampleVisible (take 2 ?tr) = Some s \<longrightarrow>
      \<not> visible (Modal (ExperimentLoggedModelListPageTableEmpty ''''
        \<lparr>displayShowExampleButton = Some False, isFilteringActive = None,
         badRequestError = None\<rparr> s))"
    by (rule conjunct2)
  with reached show ?thesis by blast
qed

text \<open>
  C10. The image passed to the empty state is the danger icon exactly when
  \<open>badRequestError\<close> is given; in the two other variants no image is passed.
\<close>

theorem image_is_danger_icon_iff_error:
  "(image (Empty (ExperimentLoggedModelListPageTableEmpty l ps s)) = Some DangerIcon \<longleftrightarrow>
      badRequestError ps \<noteq> None) \<and>
   (image (Empty (ExperimentLoggedModelListPageTableEmpty l ps s)) = None \<longleftrightarrow>
      badRequestError ps = None)"
  by (simp add: component_defs)

theorem image_is_danger_icon_iff_error_witness:
  "image (Empty (ExperimentLoggedModelListPageTableEmpty ''''
     \<lparr>displayShowExampleButton = None, isFilteringActive = None,
      badRequestError = Some \<lparr>name = ''Error'', message = ''boom''\<rparr>\<rparr> False)) = Some DangerIcon \<and>
   image (Empty (ExperimentLoggedModelListPageTableEmpty ''''
     \<lparr>displayShowExampleButton = None, isFilteringActive = Some True,
      badRequestError = None\<rparr> False)) = None \<and>
   image (Empty (ExperimentLoggedModelListPageTableEmpty ''''
     \<lparr>displayShowExampleButton = None, isFilteringActive = None,
      badRequestError = None\<rparr> False)) = None"
  using
    image_is_danger_icon_iff_error [of "''''" "\<lparr>displayShowExampleButton = None,
      isFilteringActive = None,
      badRequestError = Some \<lparr>name = ''Error'', message = ''boom''\<rparr>\<rparr>" False]
    image_is_danger_icon_iff_error [of "''''" "\<lparr>displayShowExampleButton = None,
      isFilteringActive = Some True, badRequestError = None\<rparr>" False]
    image_is_danger_icon_iff_error [of "''''" "\<lparr>displayShowExampleButton = None,
      isFilteringActive = None, badRequestError = None\<rparr>" False]
  by simp

end
